theory Spec2Isabelle
  imports Main "HOL-Library.Word" "HOL-Library.AList" "HOL-Library.Sublist"
begin

unbundle bit_operations_syntax

section \<open>Key generation options (keyGenOpts.go)\<close>

text \<open>
  \<^verbatim>\<open>type KeyGenOpts int\<close> with the constants \<^verbatim>\<open>RSA1024 ... UNKNOWN_KEYGENOPT\<close>
  numbered by \<^verbatim>\<open>iota\<close>. The values are only compared and used as an index, never
  computed with, so the Go \<^verbatim>\<open>int\<close> is read as a HOL \<open>int\<close>.
\<close>

type_synonym KeyGenOpts = int

definition RSA1024 :: KeyGenOpts where "RSA1024 = 0"
definition RSA2048 :: KeyGenOpts where "RSA2048 = 1"
definition RSA4096 :: KeyGenOpts where "RSA4096 = 2"
definition ECDSA224 :: KeyGenOpts where "ECDSA224 = 3"
definition ECDSA256 :: KeyGenOpts where "ECDSA256 = 4"
definition ECDSA384 :: KeyGenOpts where "ECDSA384 = 5"
definition ECDSA521 :: KeyGenOpts where "ECDSA521 = 6"
definition UNKNOWN_KEYGENOPT :: KeyGenOpts where "UNKNOWN_KEYGENOPT = 7"

lemmas KeyGenOpts_defs =
  RSA1024_def RSA2048_def RSA4096_def ECDSA224_def ECDSA256_def ECDSA384_def
  ECDSA521_def UNKNOWN_KEYGENOPT_def

definition optsArr :: "string list" where
  "optsArr =
     [''rsa1024'', ''rsa2048'', ''rsa4096'',
      ''ecdsa224'', ''ecdsa256'', ''ecdsa384'', ''ecdsa521'',
      ''unknown_keyGenOpt'']"

text \<open>Errors are values. \<open>ErrNew\<close> is \<^verbatim>\<open>errors.New\<close> with its message.\<close>

datatype error =
    ErrNew string
  | ErrInvalidKeyGenOpt
  | ErrWrongKeyID
  | ErrEmptyKeyPath
  | ErrNotExist string
  | ErrNotDir string
  | ErrIsDir string
  | ErrPermission string
  | ErrEntropy
  | ErrLength
  | InvalidByteError char
  | ErrCollab string
  | NilDereference

definition ValidCheck :: "KeyGenOpts \<Rightarrow> bool" where
  "ValidCheck opts =
     (if opts < 0 \<or> opts \<ge> int (length optsArr) then False else True)"

definition String :: "KeyGenOpts \<Rightarrow> string" where
  "String opts = (if \<not> ValidCheck opts then ''unknown'' else optsArr ! nat opts)"

text \<open>
  The \<^verbatim>\<open>for idx, opts := range optsArr\<close> loop of \<^verbatim>\<open>StringToKeyGenOpts\<close>: \<open>idx\<close> is
  the index of the head of the remaining table.
\<close>

fun StringToKeyGenOpts_loop :: "string \<Rightarrow> int \<Rightarrow> string list \<Rightarrow> KeyGenOpts \<times> error option" where
  "StringToKeyGenOpts_loop rawOpts idx [] =
     (UNKNOWN_KEYGENOPT, Some (ErrNew ''no such key generation option in option list''))"
| "StringToKeyGenOpts_loop rawOpts idx (opts # rest) =
     (if rawOpts = opts then (idx, None)
      else StringToKeyGenOpts_loop rawOpts (idx + 1) rest)"

definition StringToKeyGenOpts :: "string \<Rightarrow> KeyGenOpts \<times> error option" where
  "StringToKeyGenOpts rawOpts = StringToKeyGenOpts_loop rawOpts 0 optsArr"

definition RSABitsToKeyGenOpts :: "int \<Rightarrow> KeyGenOpts" where
  "RSABitsToKeyGenOpts bits =
     (if bits = 1024 then RSA1024
      else if bits = 2048 then RSA2048
      else if bits = 4096 then RSA4096
      else UNKNOWN_KEYGENOPT)"

definition RSABitsValidCheck :: "int \<Rightarrow> error option" where
  "RSABitsValidCheck bits =
     (if RSABitsToKeyGenOpts bits = UNKNOWN_KEYGENOPT
      then Some (ErrNew ''wrong bits(modulus length) for RSA'')
      else None)"

section \<open>ECDSA keys and their subject key identifier (package key, ECDSA part)\<close>

type_synonym byte = "8 word"
type_synonym bytes = "byte list"

datatype Curve = P224 | P256 | P384 | P521 | OtherCurve string

definition ECDSACurveToKeyGenOpts :: "Curve \<Rightarrow> KeyGenOpts" where
  "ECDSACurveToKeyGenOpts curve =
     (case curve of
        P224 \<Rightarrow> ECDSA224
      | P256 \<Rightarrow> ECDSA256
      | P384 \<Rightarrow> ECDSA384
      | P521 \<Rightarrow> ECDSA521
      | OtherCurve _ \<Rightarrow> UNKNOWN_KEYGENOPT)"

text \<open>
  \<^verbatim>\<open>ecdsa.PublicKey\<close> (a curve and the two coordinates) and \<^verbatim>\<open>ecdsa.PrivateKey\<close>,
  which embeds the public key, so that \<^verbatim>\<open>key.PrivKey.Curve\<close> is the field
  \<^verbatim>\<open>key.PrivKey.PublicKey.Curve\<close>. The wrappers \<^verbatim>\<open>ECDSAPrivateKey\<close> and
  \<^verbatim>\<open>ECDSAPublicKey\<close> hold a pointer, \<open>None\<close> when it is nil.
\<close>

record ecdsa_PublicKey =
  Curve :: Curve
  X :: int
  Y :: int

record ecdsa_PrivateKey =
  PublicKey :: ecdsa_PublicKey
  D :: int

record ECDSAPrivateKey =
  PrivKey :: "ecdsa_PrivateKey option"

record ECDSAPublicKey =
  PubKey :: "ecdsa_PublicKey option"

text \<open>
  The two standard-library functions the identifier is computed with:
  \<^verbatim>\<open>elliptic.Marshal\<close> (the uncompressed encoding of a curve point) and the SHA-256
  digest (\<^verbatim>\<open>sha256.New\<close>, \<^verbatim>\<open>Write\<close>, \<^verbatim>\<open>Sum(nil)\<close>). They are parameters of the model.
\<close>

record stdcrypto =
  elliptic_Marshal :: "Curve \<Rightarrow> int \<Rightarrow> int \<Rightarrow> bytes"
  sha256_Sum :: "bytes \<Rightarrow> bytes"

text \<open>A returned \<^verbatim>\<open>[]byte\<close> that may be nil is a \<open>bytes option\<close>.\<close>

definition ECDSAPrivateKey_SKI :: "stdcrypto \<Rightarrow> ECDSAPrivateKey \<Rightarrow> bytes option" where
  "ECDSAPrivateKey_SKI sc key =
     (case PrivKey key of
        None \<Rightarrow> None
      | Some priv \<Rightarrow>
          (let data = elliptic_Marshal sc (Curve (PublicKey priv)) (X (PublicKey priv))
                        (Y (PublicKey priv))
           in Some (sha256_Sum sc data)))"

text \<open>
  \<^verbatim>\<open>&ECDSAPublicKey{&key.PrivKey.PublicKey}\<close>: taking the address of a field of a nil
  pointer panics.
\<close>

definition ECDSAPrivateKey_PublicKey :: "ECDSAPrivateKey \<Rightarrow> error + ECDSAPublicKey" where
  "ECDSAPrivateKey_PublicKey key =
     (case PrivKey key of
        None \<Rightarrow> Inl NilDereference
      | Some priv \<Rightarrow> Inr \<lparr>PubKey = Some (PublicKey priv)\<rparr>)"

definition ECDSAPublicKey_SKI :: "stdcrypto \<Rightarrow> ECDSAPublicKey \<Rightarrow> bytes option" where
  "ECDSAPublicKey_SKI sc key =
     (case PubKey key of
        None \<Rightarrow> None
      | Some pub \<Rightarrow>
          (let data = elliptic_Marshal sc (Curve pub) (X pub) (Y pub)
           in Some (sha256_Sum sc data)))"

definition ECDSAPrivateKey_GenOpt :: "ECDSAPrivateKey \<Rightarrow> error + KeyGenOpts" where
  "ECDSAPrivateKey_GenOpt key =
     (case PrivKey key of
        None \<Rightarrow> Inl NilDereference
      | Some priv \<Rightarrow> Inr (ECDSACurveToKeyGenOpts (Curve (PublicKey priv))))"

text \<open>
  A small instance of the two library functions, to run the model on: the point
  encoding is the marker byte 4 followed by the low byte of each coordinate, and the
  digest stand-in keeps the first 32 bytes of its input.
\<close>

definition demo_stdcrypto :: stdcrypto where
  "demo_stdcrypto =
     \<lparr>elliptic_Marshal = (\<lambda>curve x y. [4, word_of_int x, word_of_int y]),
      sha256_Sum = take 32\<rparr>"

section \<open>The file system and the random source\<close>

text \<open>
  The operating system the key store runs on, as far as the code uses it: directories
  and files addressed by their path string, a set of locked subtrees in which nothing
  may be created, written or removed, the bytes the random source will deliver, and the
  log of the calls made so far. The content of a file is kept as the type parameter
  \<open>'c\<close>; \<^verbatim>\<open>json.Marshal\<close> and \<^verbatim>\<open>json.Unmarshal\<close> go between \<open>KeyFile\<close> and \<open>'c\<close>.
\<close>

datatype syscall =
    OpStat string
  | OpMkdirAll string
  | OpWriteFile string
  | OpReadDir string
  | OpReadFile string
  | OpRemoveAll string
  | OpRandRead nat

record 'c world =
  dirs :: "string list"
  files :: "(string \<times> 'c) list"
  locked :: "string list"
  entropy :: bytes
  trace :: "syscall list"

text \<open>\<open>under d p\<close>: the path \<open>p\<close> is \<open>d\<close> itself or lies below \<open>d\<close>.\<close>

definition under :: "string \<Rightarrow> string \<Rightarrow> bool" where
  "under d p \<longleftrightarrow> p = d \<or> prefix (d @ ''/'') p"

definition entries :: "'c world \<Rightarrow> string list" where
  "entries w = dirs w @ map fst (files w)"

text \<open>A path exists when it is an entry or an ancestor of one.\<close>

definition fsExists :: "'c world \<Rightarrow> string \<Rightarrow> bool" where
  "fsExists w p = list_ex (under p) (entries w)"

definition refused :: "'c world \<Rightarrow> string \<Rightarrow> bool" where
  "refused w p = list_ex (\<lambda>l. under l p \<or> under p l) (locked w)"

definition logged :: "syscall \<Rightarrow> 'c world \<Rightarrow> 'c world" where
  "logged op w = w\<lparr>trace := trace w @ [op]\<rparr>"

definition Stat :: "string \<Rightarrow> 'c world \<Rightarrow> error option \<times> 'c world" where
  "Stat p w =
     ((if fsExists w p then None else Some (ErrNotExist p)), logged (OpStat p) w)"

definition IsNotExist :: "error option \<Rightarrow> bool" where
  "IsNotExist err = (case err of Some (ErrNotExist _) \<Rightarrow> True | _ \<Rightarrow> False)"

definition MkdirAll :: "string \<Rightarrow> 'c world \<Rightarrow> error option \<times> 'c world" where
  "MkdirAll p w =
     (let w1 = logged (OpMkdirAll p) w in
      if map_of (files w) p \<noteq> None then (Some (ErrNotDir p), w1)
      else if refused w p then (Some (ErrPermission p), w1)
      else (None, w1\<lparr>dirs := (if p \<in> set (dirs w) then dirs w else dirs w @ [p])\<rparr>))"

definition WriteFile :: "string \<Rightarrow> 'c \<Rightarrow> 'c world \<Rightarrow> error option \<times> 'c world" where
  "WriteFile p content w =
     (let w1 = logged (OpWriteFile p) w in
      if refused w p then (Some (ErrPermission p), w1)
      else if list_ex (\<lambda>e. under p e) (dirs w) \<or>
              list_ex (\<lambda>e. e \<noteq> p \<and> under p e) (map fst (files w))
      then (Some (ErrIsDir p), w1)
      else (None, w1\<lparr>files := AList.update p content (files w)\<rparr>))"

definition ReadFile :: "string \<Rightarrow> 'c world \<Rightarrow> (error + 'c) \<times> 'c world" where
  "ReadFile p w =
     (let w1 = logged (OpReadFile p) w in
      case map_of (files w) p of
        Some content \<Rightarrow> (Inr content, w1)
      | None \<Rightarrow> (Inl (if fsExists w p then ErrIsDir p else ErrNotExist p), w1))"


text \<open>
  \<^verbatim>\<open>os.RemoveAll\<close> removes the path and everything below it, and returns nil when the
  path does not exist.
\<close>

definition RemoveAll :: "string \<Rightarrow> 'c world \<Rightarrow> error option \<times> 'c world" where
  "RemoveAll p w =
     (let w1 = logged (OpRemoveAll p) w in
      if refused w p then (Some (ErrPermission p), w1)
      else (None, w1\<lparr>dirs := filter (\<lambda>e. \<not> under p e) (dirs w),
                      files := filter (\<lambda>(e, _). \<not> under p e) (files w)\<rparr>))"

text \<open>\<^verbatim>\<open>rand.Read\<close> on a buffer of \<open>n\<close> bytes.\<close>

definition RandRead :: "nat \<Rightarrow> 'c world \<Rightarrow> (error + bytes) \<times> 'c world" where
  "RandRead n w =
     (let w1 = logged (OpRandRead n) w in
      if length (entropy w) < n then (Inl ErrEntropy, w1)
      else (Inr (take n (entropy w)), w1\<lparr>entropy := drop n (entropy w)\<rparr>))"

subsection \<open>\<^verbatim>\<open>filepath.Join\<close> and \<^verbatim>\<open>filepath.Clean\<close>\<close>

fun splitOn :: "char \<Rightarrow> string \<Rightarrow> string list" where
  "splitOn sep [] = [[]]"
| "splitOn sep (ch # cs) =
     (if ch = sep then [] # splitOn sep cs
      else (case splitOn sep cs of
              [] \<Rightarrow> [[ch]]
            | el # els \<Rightarrow> (ch # el) # els))"

fun joinWith :: "string \<Rightarrow> string list \<Rightarrow> string" where
  "joinWith sep [] = []"
| "joinWith sep [el] = el"
| "joinWith sep (el # els) = el @ sep @ joinWith sep els"

text \<open>
  The element loop of \<^verbatim>\<open>Clean\<close>: \<open>out\<close> is the stack of kept elements, last one first.
  Empty elements and \<open>.\<close> are dropped; \<open>..\<close> removes the last kept element, is kept
  itself when there is none to remove and the path is not rooted, and is dropped at the
  root.
\<close>

fun cleanElems :: "bool \<Rightarrow> string list \<Rightarrow> string list \<Rightarrow> string list" where
  "cleanElems rooted out [] = rev out"
| "cleanElems rooted out (el # els) =
     (if el = [] \<or> el = ''.'' then cleanElems rooted out els
      else if el = ''..'' then
        (case out of
           [] \<Rightarrow> if rooted then cleanElems rooted [] els
                 else cleanElems rooted [''..''] els
         | kept # below \<Rightarrow>
             if kept = ''..'' then cleanElems rooted (''..'' # out) els
             else cleanElems rooted below els)
      else cleanElems rooted (el # out) els)"

definition Clean :: "string \<Rightarrow> string" where
  "Clean p =
     (if p = [] then ''.''
      else
        (let rooted = (take 1 p = ''/'');
             body = joinWith ''/'' (cleanElems rooted [] (splitOn (CHR ''/'') p));
             r = (if rooted then ''/'' @ body else body)
         in if r = [] then ''.'' else r))"

definition Join :: "string \<Rightarrow> string \<Rightarrow> string" where
  "Join a b =
     (if a \<noteq> [] then Clean (a @ ''/'' @ b)
      else if b \<noteq> [] then Clean b
      else [])"

subsection \<open>\<^verbatim>\<open>encoding/hex\<close>\<close>

definition hextable :: string where
  "hextable = ''0123456789abcdef''"

definition hex_EncodeToString :: "bytes \<Rightarrow> string" where
  "hex_EncodeToString src =
     concat (map (\<lambda>v. [hextable ! unat (drop_bit 4 v), hextable ! unat (v AND 0x0f)]) src)"



section \<open>The key store (keystore/keystore.go)\<close>

text \<open>
  \<^verbatim>\<open>heimdall.Key\<close> is an interface; a key is modelled by what its methods return:
  \<^verbatim>\<open>SKI()\<close>, \<^verbatim>\<open>ID()\<close>, \<^verbatim>\<open>KeyGenOpt()\<close>, \<^verbatim>\<open>IsPrivate()\<close> and the raw bytes the
  encryption works on. \<^verbatim>\<open>heimdall.KeyID\<close> is a string.
\<close>

record Key =
  key_SKI :: bytes
  key_ID :: string
  key_KeyGenOpt :: KeyGenOpts
  key_IsPrivate :: bool
  key_ToByte :: bytes

text \<open>
  \<^verbatim>\<open>encryption.Opts\<close> and \<^verbatim>\<open>kdf.Opts\<close> with the fields \<^verbatim>\<open>LoadKey\<close> reads. They are
  handled through pointers, \<open>None\<close> when nil.
\<close>

record EncOpts =
  Algorithm :: string
  KeyLen :: int
  OpMode :: string

record KdfOpts =
  KdfName :: string
  KdfParams :: "(string \<times> string) list"

record EncryptionHints =
  EncOpt :: "EncOpts option"
  KDFOpt :: "KdfOpts option"
  KDFSalt :: bytes

record KeyFile =
  SKI :: bytes
  KeyGenOpt :: string
  IsPrivate :: bool
  EncryptedKey :: string
  Hints :: "EncryptionHints option"


text \<open>
  The functions of the packages \<^verbatim>\<open>heimdall\<close>, \<^verbatim>\<open>kdf\<close>, \<^verbatim>\<open>encryption\<close> and
  \<^verbatim>\<open>encoding/json\<close> that the key store calls. Their code lies outside
  keystore.go: they are parameters of the model, and every theorem below holds for all of them.
\<close>

record 'c collab =
  IsValid :: "KeyGenOpts \<Rightarrow> bool"
  ToString :: "KeyGenOpts \<Rightarrow> string"
  KeyIDPrefixCheck :: "string \<Rightarrow> error option"
  SKIValidCheck :: "string \<Rightarrow> bytes \<Rightarrow> error option"
  kdf_NewOpts :: "string \<Rightarrow> (string \<times> string) list \<Rightarrow> error + KdfOpts"
  kdf_DeriveKey :: "bytes \<Rightarrow> bytes \<Rightarrow> int \<Rightarrow> KdfOpts option \<Rightarrow> error + bytes"
  encryption_NewOpts :: "string \<Rightarrow> int \<Rightarrow> string \<Rightarrow> error + EncOpts"
  encryption_EncryptKey :: "Key \<Rightarrow> bytes \<Rightarrow> EncOpts option \<Rightarrow> error + bytes"
  encryption_DecryptKey :: "bytes \<Rightarrow> bytes \<Rightarrow> EncOpts option \<Rightarrow> error + bytes"
  json_Marshal :: "KeyFile \<Rightarrow> error + 'c"
  json_Unmarshal :: "'c \<Rightarrow> error + KeyFile"

text \<open>\<^verbatim>\<open>[]byte(pwd)\<close>\<close>

definition bytes_of_string :: "string \<Rightarrow> bytes" where
  "bytes_of_string str = map of_char str"

definition makeKeyFilePath :: "string \<Rightarrow> string \<Rightarrow> 'c world \<Rightarrow> (error + string) \<times> 'c world" where
  "makeKeyFilePath keyFileName keyDirPath w =
     (case Stat keyDirPath w of
        (serr, w1) \<Rightarrow>
          if IsNotExist serr then
            (case MkdirAll keyDirPath w1 of
               (Some err, w2) \<Rightarrow> (Inl err, w2)
             | (None, w2) \<Rightarrow> (Inr (Join keyDirPath keyFileName), w2))
          else (Inr (Join keyDirPath keyFileName), w1))"

definition makeEncryptionHints :: "EncOpts option \<Rightarrow> KdfOpts option \<Rightarrow> bytes \<Rightarrow> EncryptionHints" where
  "makeEncryptionHints encOpt kdfOpt kdfSalt =
     \<lparr>EncOpt = encOpt, KDFOpt = kdfOpt, KDFSalt = kdfSalt\<rparr>"

definition makeJsonKeyFile ::
  "'c collab \<Rightarrow> EncryptionHints \<Rightarrow> bytes \<Rightarrow> KeyGenOpts \<Rightarrow> bytes \<Rightarrow> bool \<Rightarrow> error + 'c" where
  "makeJsonKeyFile c encHints ski keyGenOpt encryptedKeyBytes isPrivate =
     (let keyFile = \<lparr>SKI = ski,
                     KeyGenOpt = ToString c keyGenOpt,
                     IsPrivate = isPrivate,
                     EncryptedKey = hex_EncodeToString encryptedKeyBytes,
                     Hints = Some encHints\<rparr>
      in json_Marshal c keyFile)"

text \<open>
  \<open>StoreKey\<close> returns its error (\<open>None\<close> for nil) and the world it leaves.
  \<^verbatim>\<open>encOpt.KeyLen\<close> dereferences the caller's pointer.
\<close>

definition StoreKey ::
  "'c collab \<Rightarrow> Key \<Rightarrow> string \<Rightarrow> string \<Rightarrow> EncOpts option \<Rightarrow> KdfOpts option \<Rightarrow>
   'c world \<Rightarrow> error option \<times> 'c world" where
  "StoreKey c key pwd keyDirPath encOpt kdfOpt w =
     (let ski = key_SKI key;
          keyId = key_ID key;
          keyGenOpt = key_KeyGenOpt key
      in
      if \<not> IsValid c keyGenOpt then (Some ErrInvalidKeyGenOpt, w)
      else
        (case makeKeyFilePath keyId keyDirPath w of
           (Inl err, w1) \<Rightarrow> (Some err, w1)
         | (Inr keyFilePath, w1) \<Rightarrow>
        (case RandRead 8 w1 of
           (Inl err, w2) \<Rightarrow> (Some err, w2)
         | (Inr salt, w2) \<Rightarrow>
        (case encOpt of
           None \<Rightarrow> (Some NilDereference, w2)
         | Some eo \<Rightarrow>
        (case kdf_DeriveKey c (bytes_of_string pwd) salt (KeyLen eo) kdfOpt of
           Inl err \<Rightarrow> (Some err, w2)
         | Inr dKey \<Rightarrow>
        (case encryption_EncryptKey c key dKey encOpt of
           Inl err \<Rightarrow> (Some err, w2)
         | Inr encryptedKeyBytes \<Rightarrow>
        (let encHints = makeEncryptionHints encOpt kdfOpt salt in
         case makeJsonKeyFile c encHints ski keyGenOpt encryptedKeyBytes (key_IsPrivate key) of
           Inl err \<Rightarrow> (Some err, w2)
         | Inr jsonKeyFile \<Rightarrow>
        (case Stat keyFilePath w2 of
           (serr, w3) \<Rightarrow>
             if IsNotExist serr then
               (case WriteFile keyFilePath jsonKeyFile w3 of
                  (Some err, w4) \<Rightarrow> (Some err, w4)
                | (None, w4) \<Rightarrow> (None, w4))
             else (None, w3)))))))))"







section \<open>The key manager (key/keyManagerImpl.go)\<close>

text \<open>
  In this package a \<^verbatim>\<open>KeyGenOpts\<close> value can be compared with nil and is the key of the
  generator map; its type is the parameter \<open>'o\<close>, and an argument that may be nil is an
  \<open>'o option\<close>. Keys are values of the interface \<^verbatim>\<open>Key\<close>, of type \<open>'k option\<close> with
  \<open>None\<close> for nil.
\<close>

datatype keyGenerator = RSAKeyGenerator int | ECDSAKeyGenerator Curve

record keyLoader =
  loader_path :: string

record keyStorer =
  storer_path :: string

record ('o, 'k) keyManagerImpl =
  priKey :: "'k option"
  pubKey :: "'k option"
  path :: string
  generators :: "'o \<rightharpoonup> keyGenerator"
  loader :: keyLoader
  storer :: keyStorer

text \<open>
  The methods \<^verbatim>\<open>keyGenerator.Generate\<close>, \<^verbatim>\<open>keyStorer.Store\<close> and \<^verbatim>\<open>keyLoader.Load\<close>
  are declared in other files of the package; they are parameters, each working on the
  world and returning what the Go method returns.
\<close>

record ('o, 'k, 'c) km_collab =
  Generate :: "keyGenerator \<Rightarrow> 'o \<Rightarrow> 'c world \<Rightarrow> ('k option \<times> 'k option \<times> error option) \<times> 'c world"
  Store :: "keyStorer \<Rightarrow> 'k option \<Rightarrow> 'k option \<Rightarrow> 'c world \<Rightarrow> error option \<times> 'c world"
  Load :: "keyLoader \<Rightarrow> 'c world \<Rightarrow> ('k option \<times> 'k option \<times> error option) \<times> 'c world"

definition NewKeyManager :: "string \<Rightarrow> (KeyGenOpts, 'k) keyManagerImpl \<times> error option" where
  "NewKeyManager p =
     (let keyGenerators =
            [RSA1024 \<mapsto> RSAKeyGenerator 1024,
             RSA2048 \<mapsto> RSAKeyGenerator 2048,
             RSA4096 \<mapsto> RSAKeyGenerator 4096,
             ECDSA224 \<mapsto> ECDSAKeyGenerator P224,
             ECDSA256 \<mapsto> ECDSAKeyGenerator P256,
             ECDSA384 \<mapsto> ECDSAKeyGenerator P384,
             ECDSA521 \<mapsto> ECDSAKeyGenerator P521];
          km = \<lparr>priKey = None, pubKey = None, path = p, generators = keyGenerators,
                loader = \<lparr>loader_path = p\<rparr>, storer = \<lparr>storer_path = p\<rparr>\<rparr>
      in (km, None))"

definition removeKey :: "('o, 'k) keyManagerImpl \<Rightarrow> 'c world \<Rightarrow> error option \<times> 'c world" where
  "removeKey km w =
     (case RemoveAll (path km) w of
        (Some err, w1) \<Rightarrow> (Some err, w1)
      | (None, w1) \<Rightarrow> (None, w1))"

text \<open>
  \<open>GenerateKey\<close> returns the triple \<^verbatim>\<open>(pri, pub, err)\<close>, the manager and the world it
  leaves.
\<close>

definition GenerateKey ::
  "('o, 'k, 'c) km_collab \<Rightarrow> ('o, 'k) keyManagerImpl \<Rightarrow> 'o option \<Rightarrow> 'c world \<Rightarrow>
   ('k option \<times> 'k option \<times> error option) \<times> ('o, 'k) keyManagerImpl \<times> 'c world" where
  "GenerateKey mc km opts w =
     (case removeKey km w of
        (Some err, w1) \<Rightarrow> ((None, None, Some err), km, w1)
      | (None, w1) \<Rightarrow>
     (case opts of
        None \<Rightarrow> ((None, None, Some (ErrNew ''Invalid KeyGen Options'')), km, w1)
      | Some opt \<Rightarrow>
     (case generators km opt of
        None \<Rightarrow> ((None, None, Some (ErrNew ''Invalid KeyGen Options'')), km, w1)
      | Some keyGenerator \<Rightarrow>
     (case Generate mc keyGenerator opt w1 of
        ((pri, pub, Some err), w2) \<Rightarrow>
          ((None, None, Some (ErrNew ''Failed to generate a Key'')), km, w2)
      | ((pri, pub, None), w2) \<Rightarrow>
     (case Store mc (storer km) pri pub w2 of
        (Some err, w3) \<Rightarrow> ((None, None, Some (ErrNew ''Failed to store a Key'')), km, w3)
      | (None, w3) \<Rightarrow> ((None, None, None), km\<lparr>priKey := pri, pubKey := pub\<rparr>, w3))))))"

definition GetKey ::
  "('o, 'k, 'c) km_collab \<Rightarrow> ('o, 'k) keyManagerImpl \<Rightarrow> 'c world \<Rightarrow>
   ('k option \<times> 'k option \<times> error option) \<times> ('o, 'k) keyManagerImpl \<times> 'c world" where
  "GetKey mc km w =
     (if priKey km = None \<or> pubKey km = None then
        (case Load mc (loader km) w of
           ((pri, pub, Some err), w1) \<Rightarrow> ((None, None, Some err), km, w1)
         | ((pri, pub, None), w1) \<Rightarrow> ((pri, pub, None), km\<lparr>priKey := pri, pubKey := pub\<rparr>, w1))
      else ((priKey km, pubKey km, None), km, w))"

section \<open>Instances to run the model on\<close>

text \<open>
  A small executable instance of the key store's collaborators: the validity check and
  the string conversion of keyGenOpts.go, a key derivation that keeps the first bytes of
  password and salt, a stream cipher that XORs every byte with the first byte of the
  derived key (like the counter mode, it has no integrity tag and decrypts under any
  key), an identifier that is the hex of the SKI, and a serialisation that stores the
  record itself.
\<close>

definition xor_stream :: "bytes \<Rightarrow> bytes \<Rightarrow> bytes" where
  "xor_stream dKey src = (case dKey of [] \<Rightarrow> src | k # _ \<Rightarrow> map (\<lambda>b. b XOR k) src)"

definition demo_collab :: "KeyFile collab" where
  "demo_collab =
     \<lparr>IsValid = ValidCheck,
      ToString = String,
      KeyIDPrefixCheck = (\<lambda>keyId. if keyId = [] then Some (ErrCollab ''empty key id'') else None),
      SKIValidCheck = (\<lambda>keyId ski. if keyId = hex_EncodeToString ski then None
                                    else Some (ErrCollab ''key id does not match SKI'')),
      kdf_NewOpts = (\<lambda>name params. Inr \<lparr>KdfName = name, KdfParams = params\<rparr>),
      kdf_DeriveKey = (\<lambda>pwd salt keyLen kdfOpt. Inr (take (nat keyLen) (pwd @ salt))),
      encryption_NewOpts = (\<lambda>alg keyLen mode. Inr \<lparr>Algorithm = alg, KeyLen = keyLen, OpMode = mode\<rparr>),
      encryption_EncryptKey = (\<lambda>key dKey encOpt. Inr (xor_stream dKey (key_ToByte key))),
      encryption_DecryptKey = (\<lambda>src dKey encOpt. Inr (xor_stream dKey src)),
      json_Marshal = Inr,
      json_Unmarshal = Inr\<rparr>"


definition demo_key :: Key where
  "demo_key =
     \<lparr>key_SKI = [0x2a], key_ID = ''2a'', key_KeyGenOpt = ECDSA384, key_IsPrivate = True,
      key_ToByte = [0x2a]\<rparr>"

definition demo_encOpt :: EncOpts where
  "demo_encOpt = \<lparr>Algorithm = ''AES'', KeyLen = 24, OpMode = ''CTR''\<rparr>"

definition demo_kdfOpt :: KdfOpts where
  "demo_kdfOpt = \<lparr>KdfName = ''SCRYPT'', KdfParams = [(''n'', ''32768''), (''r'', ''8''), (''p'', ''1'')]\<rparr>"

text \<open>An empty disk with sixteen bytes of randomness to come.\<close>

definition demo_world :: "KeyFile world" where
  "demo_world =
     \<lparr>dirs = [], files = [], locked = [],
      entropy = [1, 2, 3, 4, 5, 6, 7, 8, 9, 10, 11, 12, 13, 14, 15, 16], trace = []\<rparr>"

text \<open>The disk after \<open>demo_key\<close> has been stored under the password \<open>pw\<close>.\<close>

definition demo_stored :: "KeyFile world" where
  "demo_stored =
     \<lparr>dirs = [''keys''],
      files = [(''keys/2a'',
                \<lparr>SKI = [0x2a], KeyGenOpt = ''ecdsa384'', IsPrivate = True,
                 EncryptedKey = ''5a'',
                 Hints = Some \<lparr>EncOpt = Some demo_encOpt, KDFOpt = Some demo_kdfOpt,
                               KDFSalt = [1, 2, 3, 4, 5, 6, 7, 8]\<rparr>\<rparr>)],
      locked = [],
      entropy = [9, 10, 11, 12, 13, 14, 15, 16],
      trace = [OpStat ''keys'', OpMkdirAll ''keys'', OpRandRead 8,
               OpStat ''keys/2a'', OpWriteFile ''keys/2a'']\<rparr>"

text \<open>
  An instance of the key manager's collaborators: the generator draws two bytes for
  the private key and keeps the first for the public one, the storer writes the private
  key to the file \<open>pri\<close> of its directory, and the loader reads it back. The disk holds
  one key file from an earlier run.
\<close>

definition demo_km_collab :: "(KeyGenOpts, bytes, bytes) km_collab" where
  "demo_km_collab =
     \<lparr>Generate = (\<lambda>keyGenerator opt w.
        case RandRead 2 w of
          (Inl err, w1) \<Rightarrow> ((None, None, Some err), w1)
        | (Inr bs, w1) \<Rightarrow> ((Some bs, Some (take 1 bs), None), w1)),
      Store = (\<lambda>st pri pub w.
        case MkdirAll (storer_path st) w of
          (Some err, w1) \<Rightarrow> (Some err, w1)
        | (None, w1) \<Rightarrow>
            (case pri of
               None \<Rightarrow> (Some (ErrCollab ''nil key''), w1)
             | Some raw \<Rightarrow> WriteFile (Join (storer_path st) ''pri'') raw w1)),
      Load = (\<lambda>ld w.
        case ReadFile (Join (loader_path ld) ''pri'') w of
          (Inl err, w1) \<Rightarrow> ((None, None, Some err), w1)
        | (Inr raw, w1) \<Rightarrow> ((Some raw, Some (take 1 raw), None), w1))\<rparr>"

definition demo_km :: "(KeyGenOpts, bytes) keyManagerImpl" where
  "demo_km = fst (NewKeyManager ''.keys'')"

definition demo_km_world :: "bytes world" where
  "demo_km_world =
     \<lparr>dirs = [''.keys''], files = [(''.keys/pri'', [7, 7])], locked = [],
      entropy = [1, 2, 3, 4], trace = []\<rparr>"

section \<open>Properties of the option codec\<close>

lemma ValidCheck_range: "ValidCheck opts \<longleftrightarrow> 0 \<le> opts \<and> opts < 8"
  by (auto simp: ValidCheck_def optsArr_def)

lemma StringToKeyGenOpts_loop_miss:
  "rawOpts \<notin> set arr \<Longrightarrow>
   StringToKeyGenOpts_loop rawOpts idx arr =
     (UNKNOWN_KEYGENOPT, Some (ErrNew ''no such key generation option in option list''))"
  by (induction arr arbitrary: idx) auto

text \<open>
  C3. For each of the seven defined options, from \<open>RSA1024\<close> to \<open>ECDSA521\<close>,
  converting the option to its string and the string back returns the option itself
  and no error.
\<close>

theorem C3_codec_roundtrip:
  "opts \<in> set [RSA1024, RSA2048, RSA4096, ECDSA224, ECDSA256, ECDSA384, ECDSA521] \<Longrightarrow>
   StringToKeyGenOpts (String opts) = (opts, None)"
  by (auto simp: KeyGenOpts_defs StringToKeyGenOpts_def String_def ValidCheck_def optsArr_def)

theorem C3_codec_roundtrip_witness:
  "ECDSA384 \<in> set [RSA1024, RSA2048, RSA4096, ECDSA224, ECDSA256, ECDSA384, ECDSA521] \<and>
   String ECDSA384 = ''ecdsa384'' \<and>
   StringToKeyGenOpts ''ecdsa384'' = (ECDSA384, None)"
proof -
  have m: "ECDSA384 \<in> set [RSA1024, RSA2048, RSA4096, ECDSA224, ECDSA256, ECDSA384, ECDSA521]"
    by simp
  have s: "String ECDSA384 = ''ecdsa384''"
    by (simp add: String_def ValidCheck_def optsArr_def ECDSA384_def)
  from C3_codec_roundtrip [OF m] s m show ?thesis by simp
qed

text \<open>
  C4, at the input \<open>''unknown_keyGenOpt''\<close>. The string is none of the seven tokens of
  the defined options, yet it is the eighth entry of \<open>optsArr\<close>, so the scan finds it
  and returns \<open>UNKNOWN_KEYGENOPT\<close> with a nil error.
\<close>

theorem C4_sentinel_name_parses:
  "StringToKeyGenOpts ''unknown_keyGenOpt'' = (UNKNOWN_KEYGENOPT, None)"
  by (simp add: StringToKeyGenOpts_def optsArr_def UNKNOWN_KEYGENOPT_def)

text \<open>
  C5, at the input \<open>UNKNOWN_KEYGENOPT\<close>. The upper bound of \<open>ValidCheck\<close> is the length
  of \<open>optsArr\<close>, which counts the entry of the sentinel, so the sentinel is accepted,
  although \<open>RSABitsValidCheck\<close> reports the same value as an error.
\<close>

theorem C5_sentinel_passes_ValidCheck:
  "ValidCheck UNKNOWN_KEYGENOPT = True \<and>
   RSABitsToKeyGenOpts 512 = UNKNOWN_KEYGENOPT \<and>
   RSABitsValidCheck 512 = Some (ErrNew ''wrong bits(modulus length) for RSA'')"
  by (simp add: ValidCheck_def optsArr_def RSABitsValidCheck_def RSABitsToKeyGenOpts_def
      KeyGenOpts_defs)

section \<open>Properties of the ECDSA key identifier\<close>

text \<open>
  C6. For an ECDSA key pair (a private key whose \<open>PrivKey\<close> is set), the SKI of the
  private key is the SKI of its own \<open>PublicKey()\<close>, both are the SHA-256 digest of the
  uncompressed encoding of the public point on the key's curve, and any other pair with
  the same public key has the same SKI.
\<close>

theorem C6_ski_of_pair:
  assumes "PrivKey key = Some priv"
  shows "(\<exists>pub. ECDSAPrivateKey_PublicKey key = Inr pub \<and>
                ECDSAPublicKey_SKI sc pub = ECDSAPrivateKey_SKI sc key) \<and>
         ECDSAPrivateKey_SKI sc key =
           Some (sha256_Sum sc (elliptic_Marshal sc (Curve (PublicKey priv))
                   (X (PublicKey priv)) (Y (PublicKey priv)))) \<and>
         (\<forall>key' priv'. PrivKey key' = Some priv' \<and> PublicKey priv' = PublicKey priv \<longrightarrow>
            ECDSAPrivateKey_SKI sc key' = ECDSAPrivateKey_SKI sc key)"
  using assms
  by (simp add: ECDSAPrivateKey_PublicKey_def ECDSAPublicKey_SKI_def ECDSAPrivateKey_SKI_def)

theorem C6_ski_of_pair_witness:
  "PrivKey \<lparr>PrivKey = Some \<lparr>PublicKey = \<lparr>Curve = P384, X = 17, Y = 42\<rparr>, D = 5\<rparr>\<rparr>
     = Some \<lparr>PublicKey = \<lparr>Curve = P384, X = 17, Y = 42\<rparr>, D = 5\<rparr> \<and>
   ECDSAPrivateKey_PublicKey
     \<lparr>PrivKey = Some \<lparr>PublicKey = \<lparr>Curve = P384, X = 17, Y = 42\<rparr>, D = 5\<rparr>\<rparr>
     = Inr \<lparr>PubKey = Some \<lparr>Curve = P384, X = 17, Y = 42\<rparr>\<rparr> \<and>
   ECDSAPublicKey_SKI demo_stdcrypto \<lparr>PubKey = Some \<lparr>Curve = P384, X = 17, Y = 42\<rparr>\<rparr>
     = Some [4, 17, 42] \<and>
   ECDSAPrivateKey_SKI demo_stdcrypto
     \<lparr>PrivKey = Some \<lparr>PublicKey = \<lparr>Curve = P384, X = 17, Y = 42\<rparr>, D = 5\<rparr>\<rparr>
     = Some [4, 17, 42]"
proof -
  let ?priv = "\<lparr>PublicKey = \<lparr>Curve = P384, X = 17, Y = 42\<rparr>, D = 5\<rparr>"
  let ?key = "\<lparr>PrivKey = Some ?priv\<rparr>"
  have h: "PrivKey ?key = Some ?priv" by simp
  have pk: "ECDSAPrivateKey_PublicKey ?key = Inr \<lparr>PubKey = Some \<lparr>Curve = P384, X = 17, Y = 42\<rparr>\<rparr>"
    by (simp add: ECDSAPrivateKey_PublicKey_def)
  from C6_ski_of_pair [OF h, of demo_stdcrypto] pk h show ?thesis
    by (simp add: demo_stdcrypto_def)
qed

section \<open>Properties of the key store\<close>

subsection \<open>What the file system operations preserve\<close>

lemma logged_fields [simp]:
  "dirs (logged op w) = dirs w" "files (logged op w) = files w"
  "locked (logged op w) = locked w" "entropy (logged op w) = entropy w"
  "trace (logged op w) = trace w @ [op]"
  by (simp_all add: logged_def)

lemma entries_logged [simp]: "entries (logged op w) = entries w"
  by (simp add: entries_def)

lemma fsExists_logged [simp]: "fsExists (logged op w) p = fsExists w p"
  by (simp add: fsExists_def)

lemma fsExists_iff: "fsExists w p \<longleftrightarrow> (\<exists>e \<in> set (dirs w) \<union> fst ` set (files w). under p e)"
  by (auto simp: fsExists_def entries_def list_ex_iff)

lemma Stat_result:
  "Stat p w = ((if fsExists w p then None else Some (ErrNotExist p)), logged (OpStat p) w)"
  by (simp add: Stat_def)

lemma makeKeyFilePath_files: "files (snd (makeKeyFilePath n d w)) = files w"
  by (simp add: makeKeyFilePath_def Stat_def MkdirAll_def Let_def IsNotExist_def)

lemma makeKeyFilePath_exists:
  "fsExists w p \<Longrightarrow> fsExists (snd (makeKeyFilePath n d w)) p"
  by (auto simp: makeKeyFilePath_def Stat_def MkdirAll_def Let_def IsNotExist_def fsExists_iff)

lemma makeKeyFilePath_path:
  "makeKeyFilePath n d w = (Inr p, w1) \<Longrightarrow> p = Join d n"
  by (auto simp: makeKeyFilePath_def Stat_def MkdirAll_def Let_def IsNotExist_def split: if_splits)

lemma RandRead_fs:
  "RandRead n w = (r, w1) \<Longrightarrow> files w1 = files w \<and> dirs w1 = dirs w"
  by (auto simp: RandRead_def Let_def split: if_splits)

lemma makeKeyFilePath_entropy: "entropy (snd (makeKeyFilePath n d w)) = entropy w"
  by (simp add: makeKeyFilePath_def Stat_def MkdirAll_def Let_def IsNotExist_def)

lemma under_refl [simp]: "under p p"
  by (simp add: under_def)

lemma update_has_key: "p \<in> fst ` set (AList.update p content al)"
proof -
  have "map_of (AList.update p content al) p = Some content"
    by (simp add: update_conv')
  then have "(p, content) \<in> set (AList.update p content al)"
    by (rule map_of_SomeD)
  then show ?thesis by force
qed

lemma WriteFile_creates:
  assumes "WriteFile p content w = (None, w1)"
  shows "fsExists w1 p"
proof -
  from assms have "files w1 = AList.update p content (files w)"
    by (auto simp: WriteFile_def Let_def split: if_splits)
  then have "p \<in> fst ` set (files w1)"
    using update_has_key [of p content "files w"] by simp
  then show ?thesis
    unfolding fsExists_iff using under_refl by blast
qed

lemma Stat_found:
  "Stat p w = (serr, w1) \<Longrightarrow> \<not> IsNotExist serr \<Longrightarrow> fsExists w1 p"
  by (auto simp: Stat_def IsNotExist_def split: if_splits)

lemma Stat_of_existing:
  "fsExists w p \<Longrightarrow> Stat p w = (None, logged (OpStat p) w)"
  by (simp add: Stat_def)

text \<open>
  Every run of \<open>StoreKey\<close> either stops with an error before the existence check,
  with the files as they were, or reaches the check.
\<close>

lemma StoreKey_cases:
  obtains
    (early) err w' where
      "StoreKey c key pwd keyDirPath encOpt kdfOpt w = (Some err, w')"
      "files w' = files w"
  | (late) w2 jsonKeyFile where
      "files w2 = files w"
      "fsExists w (Join keyDirPath (key_ID key)) \<longrightarrow> fsExists w2 (Join keyDirPath (key_ID key))"
      "StoreKey c key pwd keyDirPath encOpt kdfOpt w =
         (case Stat (Join keyDirPath (key_ID key)) w2 of
            (serr, w3) \<Rightarrow>
              if IsNotExist serr then
                (case WriteFile (Join keyDirPath (key_ID key)) jsonKeyFile w3 of
                   (Some err, w4) \<Rightarrow> (Some err, w4)
                 | (None, w4) \<Rightarrow> (None, w4))
              else (None, w3))"
proof -
  let ?p = "Join keyDirPath (key_ID key)"
  let ?S = "StoreKey c key pwd keyDirPath encOpt kdfOpt w"
  obtain r1 w1 where mk: "makeKeyFilePath (key_ID key) keyDirPath w = (r1, w1)"
    by (cases "makeKeyFilePath (key_ID key) keyDirPath w")
  have f1: "files w1 = files w"
    using makeKeyFilePath_files [of "key_ID key" keyDirPath w] mk by simp
  obtain r2 w2 where rr: "RandRead 8 w1 = (r2, w2)" by (cases "RandRead 8 w1")
  have f2: "files w2 = files w1" "dirs w2 = dirs w1" using RandRead_fs [OF rr] by simp_all
  have e2: "fsExists w ?p \<longrightarrow> fsExists w2 ?p"
  proof
    assume "fsExists w ?p"
    then have "fsExists w1 ?p"
      using makeKeyFilePath_exists [of w ?p "key_ID key" keyDirPath] mk by simp
    then show "fsExists w2 ?p" using f2 by (simp add: fsExists_iff)
  qed
  show thesis
  proof (cases "IsValid c (key_KeyGenOpt key)")
    case False
    then have "?S = (Some ErrInvalidKeyGenOpt, w)" by (simp add: StoreKey_def)
    then show thesis using early by simp
  next
    case valid: True
    show thesis
    proof (cases r1)
      case (Inl err)
      then have "?S = (Some err, w1)" using valid mk by (simp add: StoreKey_def)
      then show thesis using early f1 by simp
    next
      case (Inr kp)
      then have kp: "kp = ?p" using makeKeyFilePath_path mk by blast
      note r1 = Inr
      show thesis
      proof (cases r2)
        case (Inl err)
        then have "?S = (Some err, w2)" using valid mk r1 rr by (simp add: StoreKey_def)
        then show thesis using early f1 f2 by simp
      next
        case (Inr salt)
        note r2 = Inr
        show thesis
        proof (cases encOpt)
          case None
          then have "?S = (Some NilDereference, w2)"
            using valid mk r1 rr r2 by (simp add: StoreKey_def)
          then show thesis using early f1 f2 by simp
        next
          case (Some eo)
          note eo = Some
          show thesis
          proof (cases "kdf_DeriveKey c (bytes_of_string pwd) salt (KeyLen eo) kdfOpt")
            case (Inl err)
            then have "?S = (Some err, w2)"
              using valid mk r1 rr r2 eo by (simp add: StoreKey_def)
            then show thesis using early f1 f2 by simp
          next
            case (Inr dKey)
            note dk = Inr
            show thesis
            proof (cases "encryption_EncryptKey c key dKey encOpt")
              case (Inl err)
              then have "?S = (Some err, w2)"
                using valid mk r1 rr r2 eo dk by (simp add: StoreKey_def)
              then show thesis using early f1 f2 by simp
            next
              case (Inr encryptedKeyBytes)
              note enc = Inr
              show thesis
              proof (cases "makeJsonKeyFile c (makeEncryptionHints encOpt kdfOpt salt)
                              (key_SKI key) (key_KeyGenOpt key) encryptedKeyBytes (key_IsPrivate key)")
                case (Inl err)
                then have "?S = (Some err, w2)"
                  using valid mk r1 rr r2 eo dk enc by (simp add: StoreKey_def Let_def)
                then show thesis using early f1 f2 by simp
              next
                case (Inr jsonKeyFile)
                then have "?S =
                  (case Stat ?p w2 of
                     (serr, w3) \<Rightarrow>
                       if IsNotExist serr then
                         (case WriteFile ?p jsonKeyFile w3 of
                            (Some err, w4) \<Rightarrow> (Some err, w4)
                          | (None, w4) \<Rightarrow> (None, w4))
                       else (None, w3))"
                  using valid mk r1 kp rr r2 eo dk enc by (simp add: StoreKey_def Let_def)
                then show thesis using late [of w2 jsonKeyFile] f1 f2 e2 by simp
              qed
            qed
          qed
        qed
      qed
    qed
  qed
qed

lemma StoreKey_files_unchanged:
  assumes "fsExists w (Join keyDirPath (key_ID key))"
  shows "files (snd (StoreKey c key pwd keyDirPath encOpt kdfOpt w)) = files w"
proof (cases rule: StoreKey_cases [of c key pwd keyDirPath encOpt kdfOpt w])
  case (early err w')
  then show ?thesis by simp
next
  case (late w2 jsonKeyFile)
  then have "fsExists w2 (Join keyDirPath (key_ID key))" using assms by simp
  then show ?thesis using late by (simp add: Stat_of_existing IsNotExist_def)
qed

lemma StoreKey_success_exists:
  assumes ok: "fst (StoreKey c key pwd keyDirPath encOpt kdfOpt w) = None"
  shows "fsExists (snd (StoreKey c key pwd keyDirPath encOpt kdfOpt w)) (Join keyDirPath (key_ID key))"
proof (cases rule: StoreKey_cases [of c key pwd keyDirPath encOpt kdfOpt w])
  case (early err w')
  then show ?thesis using ok by simp
next
  case (late w2 jsonKeyFile)
  let ?p = "Join keyDirPath (key_ID key)"
  obtain serr w3 where st: "Stat ?p w2 = (serr, w3)" by (cases "Stat ?p w2")
  show ?thesis
  proof (cases "IsNotExist serr")
    case False
    then show ?thesis using late st Stat_found [OF st False] by simp
  next
    case True
    obtain r w4 where wf: "WriteFile ?p jsonKeyFile w3 = (r, w4)"
      by (cases "WriteFile ?p jsonKeyFile w3")
    have sk: "StoreKey c key pwd keyDirPath encOpt kdfOpt w = (r, w4)"
      using late st True wf by (cases r) simp_all
    then have "r = None" using ok by simp
    then have "WriteFile ?p jsonKeyFile w3 = (None, w4)" using wf by simp
    then have "fsExists w4 ?p" by (rule WriteFile_creates)
    then show ?thesis using sk by simp
  qed
qed

lemma StoreKey_no_error:
  assumes ex: "fsExists w (Join keyDirPath (key_ID key))"
    and valid: "IsValid c (key_KeyGenOpt key)"
    and mk: "fst (makeKeyFilePath (key_ID key) keyDirPath w) = Inr keyFilePath"
    and ent: "8 \<le> length (entropy w)"
    and eo: "encOpt = Some eo"
    and dk: "kdf_DeriveKey c (bytes_of_string pwd) (take 8 (entropy w)) (KeyLen eo) kdfOpt = Inr dKey"
    and enc: "encryption_EncryptKey c key dKey encOpt = Inr encryptedKeyBytes"
    and js: "makeJsonKeyFile c (makeEncryptionHints encOpt kdfOpt (take 8 (entropy w)))
               (key_SKI key) (key_KeyGenOpt key) encryptedKeyBytes (key_IsPrivate key) = Inr jsonKeyFile"
  shows "fst (StoreKey c key pwd keyDirPath encOpt kdfOpt w) = None"
proof -
  obtain w1 where mk1: "makeKeyFilePath (key_ID key) keyDirPath w = (Inr keyFilePath, w1)"
    using mk by (cases "makeKeyFilePath (key_ID key) keyDirPath w") auto
  have p: "keyFilePath = Join keyDirPath (key_ID key)" using makeKeyFilePath_path [OF mk1] .
  have en1: "entropy w1 = entropy w"
    using makeKeyFilePath_entropy [of "key_ID key" keyDirPath w] mk1 by simp
  have e1: "fsExists w1 (Join keyDirPath (key_ID key))"
    using makeKeyFilePath_exists [OF ex, of "key_ID key" keyDirPath] mk1 by simp
  have rr: "RandRead 8 w1 =
      (Inr (take 8 (entropy w)), (logged (OpRandRead 8) w1)\<lparr>entropy := drop 8 (entropy w)\<rparr>)"
    using ent en1 by (simp add: RandRead_def Let_def)
  have e2: "fsExists ((logged (OpRandRead 8) w1)\<lparr>entropy := drop 8 (entropy w)\<rparr>) (Join keyDirPath (key_ID key))"
    using e1 by (simp add: fsExists_iff)
  show ?thesis
    using valid mk1 rr eo dk enc js p
    by (simp add: StoreKey_def Let_def Stat_of_existing [OF e2] IsNotExist_def)
qed


subsection \<open>Storing\<close>

text \<open>
  C2, as amended. When something already exists at the path of the key file,
  \<open>StoreKey\<close> leaves every file as it was, whatever it returns. It returns no error
  when, in addition, the option is valid, the path is computed, eight random bytes are
  available, and key derivation, encryption and serialisation succeed. After a
  \<open>StoreKey\<close> that returned no error, a second \<open>StoreKey\<close> into the same directory for
  a key with the same identifier leaves every file as the first call left it.
\<close>

theorem C2_existing_file_not_overwritten:
  "(fsExists w (Join keyDirPath (key_ID key)) \<longrightarrow>
      files (snd (StoreKey c key pwd keyDirPath encOpt kdfOpt w)) = files w) \<and>
   (fsExists w (Join keyDirPath (key_ID key)) \<and>
    IsValid c (key_KeyGenOpt key) \<and>
    fst (makeKeyFilePath (key_ID key) keyDirPath w) = Inr keyFilePath \<and>
    8 \<le> length (entropy w) \<and>
    encOpt = Some eo \<and>
    kdf_DeriveKey c (bytes_of_string pwd) (take 8 (entropy w)) (KeyLen eo) kdfOpt = Inr dKey \<and>
    encryption_EncryptKey c key dKey encOpt = Inr encryptedKeyBytes \<and>
    makeJsonKeyFile c (makeEncryptionHints encOpt kdfOpt (take 8 (entropy w)))
      (key_SKI key) (key_KeyGenOpt key) encryptedKeyBytes (key_IsPrivate key) = Inr jsonKeyFile \<longrightarrow>
      fst (StoreKey c key pwd keyDirPath encOpt kdfOpt w) = None) \<and>
   (fst (StoreKey c key pwd keyDirPath encOpt kdfOpt w) = None \<and> key_ID key2 = key_ID key \<longrightarrow>
      files (snd (StoreKey c2 key2 pwd2 keyDirPath encOpt2 kdfOpt2
                    (snd (StoreKey c key pwd keyDirPath encOpt kdfOpt w)))) =
      files (snd (StoreKey c key pwd keyDirPath encOpt kdfOpt w)))"
proof (intro conjI impI)
  assume "fsExists w (Join keyDirPath (key_ID key))"
  then show "files (snd (StoreKey c key pwd keyDirPath encOpt kdfOpt w)) = files w"
    by (rule StoreKey_files_unchanged)
next
  assume "fsExists w (Join keyDirPath (key_ID key)) \<and>
    IsValid c (key_KeyGenOpt key) \<and>
    fst (makeKeyFilePath (key_ID key) keyDirPath w) = Inr keyFilePath \<and>
    8 \<le> length (entropy w) \<and>
    encOpt = Some eo \<and>
    kdf_DeriveKey c (bytes_of_string pwd) (take 8 (entropy w)) (KeyLen eo) kdfOpt = Inr dKey \<and>
    encryption_EncryptKey c key dKey encOpt = Inr encryptedKeyBytes \<and>
    makeJsonKeyFile c (makeEncryptionHints encOpt kdfOpt (take 8 (entropy w)))
      (key_SKI key) (key_KeyGenOpt key) encryptedKeyBytes (key_IsPrivate key) = Inr jsonKeyFile"
  then show "fst (StoreKey c key pwd keyDirPath encOpt kdfOpt w) = None"
    by (elim conjE) (rule StoreKey_no_error)
next
  assume a: "fst (StoreKey c key pwd keyDirPath encOpt kdfOpt w) = None \<and> key_ID key2 = key_ID key"
  then have "fsExists (snd (StoreKey c key pwd keyDirPath encOpt kdfOpt w)) (Join keyDirPath (key_ID key2))"
    using StoreKey_success_exists [of c key pwd keyDirPath encOpt kdfOpt w] by simp
  then show "files (snd (StoreKey c2 key2 pwd2 keyDirPath encOpt2 kdfOpt2
                    (snd (StoreKey c key pwd keyDirPath encOpt kdfOpt w)))) =
      files (snd (StoreKey c key pwd keyDirPath encOpt kdfOpt w))"
    by (rule StoreKey_files_unchanged)
qed


text \<open>
  C2 as stated fails on the error: with the file of \<open>demo_key\<close> on the disk, a key of
  the same identifier whose option is out of range is refused with
  \<open>ErrInvalidKeyGenOpt\<close>, and a valid key is refused with the error of the random
  source when that has no bytes left.
\<close>

theorem C2_error_although_file_exists:
  "fsExists demo_stored (Join ''keys'' (key_ID (demo_key\<lparr>key_KeyGenOpt := 8\<rparr>))) \<and>
   fst (StoreKey demo_collab (demo_key\<lparr>key_KeyGenOpt := 8\<rparr>) ''pw'' ''keys''
          (Some demo_encOpt) (Some demo_kdfOpt) demo_stored) = Some ErrInvalidKeyGenOpt \<and>
   fsExists (demo_stored\<lparr>entropy := []\<rparr>) (Join ''keys'' (key_ID demo_key)) \<and>
   fst (StoreKey demo_collab demo_key ''pw'' ''keys''
          (Some demo_encOpt) (Some demo_kdfOpt) (demo_stored\<lparr>entropy := []\<rparr>)) = Some ErrEntropy"
  by code_simp

theorem C2_existing_file_not_overwritten_witness:
  "fsExists demo_stored (Join ''keys'' (key_ID demo_key)) \<and>
   files (snd (StoreKey demo_collab demo_key ''other'' ''keys'' (Some demo_encOpt) (Some demo_kdfOpt)
                 demo_stored)) = files demo_stored \<and>
   fst (StoreKey demo_collab demo_key ''other'' ''keys'' (Some demo_encOpt) (Some demo_kdfOpt)
          demo_stored) = None \<and>
   files (snd (StoreKey demo_collab demo_key ''third'' ''keys'' (Some demo_encOpt) (Some demo_kdfOpt)
                 (snd (StoreKey demo_collab demo_key ''other'' ''keys'' (Some demo_encOpt)
                         (Some demo_kdfOpt) demo_stored)))) = files demo_stored"
proof -
  let ?doc = "\<lparr>SKI = [0x2a], KeyGenOpt = ''ecdsa384'', IsPrivate = True, EncryptedKey = ''45'',
               Hints = Some \<lparr>EncOpt = Some demo_encOpt, KDFOpt = Some demo_kdfOpt,
                             KDFSalt = [9, 10, 11, 12, 13, 14, 15, 16]\<rparr>\<rparr>"
  note inst = C2_existing_file_not_overwritten
    [where w = demo_stored and keyDirPath = "''keys''" and key = demo_key and c = demo_collab
       and pwd = "''other''" and encOpt = "Some demo_encOpt" and kdfOpt = "Some demo_kdfOpt"
       and keyFilePath = "''keys/2a''" and eo = demo_encOpt
       and dKey = "[111, 116, 104, 101, 114, 9, 10, 11, 12, 13, 14, 15, 16]"
       and encryptedKeyBytes = "[69]" and jsonKeyFile = ?doc
       and ?key2.0 = demo_key and ?c2.0 = demo_collab and ?pwd2.0 = "''third''"
       and ?encOpt2.0 = "Some demo_encOpt" and ?kdfOpt2.0 = "Some demo_kdfOpt"]
  have h1: "fsExists demo_stored (Join ''keys'' (key_ID demo_key))" by code_simp
  have h2: "IsValid demo_collab (key_KeyGenOpt demo_key)" by code_simp
  have h3: "fst (makeKeyFilePath (key_ID demo_key) ''keys'' demo_stored) = Inr ''keys/2a''"
    by code_simp
  have h4: "8 \<le> length (entropy demo_stored)" by code_simp
  have h5: "kdf_DeriveKey demo_collab (bytes_of_string ''other'') (take 8 (entropy demo_stored))
              (KeyLen demo_encOpt) (Some demo_kdfOpt) =
            Inr [111, 116, 104, 101, 114, 9, 10, 11, 12, 13, 14, 15, 16]"
    by code_simp
  have h6: "encryption_EncryptKey demo_collab demo_key
              [111, 116, 104, 101, 114, 9, 10, 11, 12, 13, 14, 15, 16] (Some demo_encOpt) = Inr [69]"
    by code_simp
  have h7: "makeJsonKeyFile demo_collab
              (makeEncryptionHints (Some demo_encOpt) (Some demo_kdfOpt) (take 8 (entropy demo_stored)))
              (key_SKI demo_key) (key_KeyGenOpt demo_key) [69] (key_IsPrivate demo_key) = Inr ?doc"
    by code_simp
  from inst h1 have a: "files (snd (StoreKey demo_collab demo_key ''other'' ''keys'' (Some demo_encOpt)
      (Some demo_kdfOpt) demo_stored)) = files demo_stored" by blast
  from inst h1 h2 h3 h4 h5 h6 h7
  have b: "fst (StoreKey demo_collab demo_key ''other'' ''keys'' (Some demo_encOpt) (Some demo_kdfOpt)
          demo_stored) = None" by blast
  from inst b have c: "files (snd (StoreKey demo_collab demo_key ''third'' ''keys'' (Some demo_encOpt) (Some demo_kdfOpt)
                 (snd (StoreKey demo_collab demo_key ''other'' ''keys'' (Some demo_encOpt)
                         (Some demo_kdfOpt) demo_stored)))) =
      files (snd (StoreKey demo_collab demo_key ''other'' ''keys'' (Some demo_encOpt)
                         (Some demo_kdfOpt) demo_stored))" by blast
  from h1 a b c show ?thesis by simp
qed

text \<open>
  C7. For a key whose generation option is not valid, \<open>StoreKey\<close> returns
  \<open>ErrInvalidKeyGenOpt\<close> and leaves the world as it was: no random byte is taken, no
  operation of the file system is logged, nothing is written, and the result does not
  depend on the key derivation or the encryption.
\<close>

theorem C7_invalid_option_fails_first:
  "\<not> IsValid c (key_KeyGenOpt key) \<Longrightarrow>
   StoreKey c key pwd keyDirPath encOpt kdfOpt w = (Some ErrInvalidKeyGenOpt, w)"
  by (simp add: StoreKey_def)

theorem C7_invalid_option_fails_first_witness:
  "\<not> IsValid demo_collab (key_KeyGenOpt (demo_key\<lparr>key_KeyGenOpt := 8\<rparr>)) \<and>
   StoreKey demo_collab (demo_key\<lparr>key_KeyGenOpt := 8\<rparr>) ''pw'' ''keys''
     (Some demo_encOpt) (Some demo_kdfOpt) demo_world = (Some ErrInvalidKeyGenOpt, demo_world)"
proof -
  have h: "\<not> IsValid demo_collab (key_KeyGenOpt (demo_key\<lparr>key_KeyGenOpt := 8\<rparr>))"
    by code_simp
  from C7_invalid_option_fails_first [OF h, of "''pw''" "''keys''" "Some demo_encOpt"
      "Some demo_kdfOpt" demo_world] h
  show ?thesis by simp
qed

subsection \<open>Loading\<close>












section \<open>Properties of the key manager\<close>




text \<open>
  C9. Whenever \<open>GenerateKey\<close> returns a nil error, the two keys it returns are nil as
  well: the option was given and registered, the removal, the generator and the storer
  succeeded, and the generated pair is in the manager's fields \<open>priKey\<close> and \<open>pubKey\<close>
  only. A following \<open>GetKey\<close> hands the cached pair out without touching the world.
\<close>

theorem C9_GenerateKey_returns_nil_keys:
  assumes "GenerateKey mc km opts w = ((pri, pub, None), km', w')"
  shows "pri = None \<and> pub = None \<and>
     (\<exists>opt keyGenerator w1 newPri newPub w2.
        opts = Some opt \<and>
        removeKey km w = (None, w1) \<and>
        generators km opt = Some keyGenerator \<and>
        Generate mc keyGenerator opt w1 = ((newPri, newPub, None), w2) \<and>
        Store mc (storer km) newPri newPub w2 = (None, w') \<and>
        km' = km\<lparr>priKey := newPri, pubKey := newPub\<rparr> \<and>
        (newPri \<noteq> None \<and> newPub \<noteq> None \<longrightarrow>
           GetKey mc km' w' = ((newPri, newPub, None), km', w')))"
proof -
  obtain r0 w1 where rk: "removeKey km w = (r0, w1)" by (cases "removeKey km w")
  from assms rk have r0: "r0 = None" by (cases r0) (simp_all add: GenerateKey_def)
  from assms rk r0 obtain opt where opt: "opts = Some opt"
    by (cases opts) (simp_all add: GenerateKey_def)
  from assms rk r0 opt obtain keyGenerator where g: "generators km opt = Some keyGenerator"
    by (cases "generators km opt") (simp_all add: GenerateKey_def)
  obtain newPri newPub gerr w2 where
    gen: "Generate mc keyGenerator opt w1 = ((newPri, newPub, gerr), w2)"
    by (cases "Generate mc keyGenerator opt w1") auto
  from assms rk r0 opt g gen have gerr: "gerr = None"
    by (cases gerr) (simp_all add: GenerateKey_def)
  obtain serr w3 where st: "Store mc (storer km) newPri newPub w2 = (serr, w3)"
    by (cases "Store mc (storer km) newPri newPub w2")
  from assms rk r0 opt g gen gerr st have serr: "serr = None"
    by (cases serr) (simp_all add: GenerateKey_def)
  from assms rk r0 opt g gen gerr st serr
  have res: "pri = None" "pub = None" "km' = km\<lparr>priKey := newPri, pubKey := newPub\<rparr>" "w' = w3"
    by (simp_all add: GenerateKey_def)
  have "newPri \<noteq> None \<and> newPub \<noteq> None \<longrightarrow>
           GetKey mc km' w' = ((newPri, newPub, None), km', w')"
    using res by (simp add: GetKey_def)
  with res rk r0 opt g gen gerr st serr show ?thesis by blast
qed

theorem C9_GenerateKey_returns_nil_keys_witness:
  "snd (snd (fst (GenerateKey demo_km_collab demo_km (Some RSA2048) demo_km_world))) = None \<and>
   fst (fst (GenerateKey demo_km_collab demo_km (Some RSA2048) demo_km_world)) = None \<and>
   fst (snd (fst (GenerateKey demo_km_collab demo_km (Some RSA2048) demo_km_world))) = None \<and>
   priKey (fst (snd (GenerateKey demo_km_collab demo_km (Some RSA2048) demo_km_world))) = Some [1, 2] \<and>
   pubKey (fst (snd (GenerateKey demo_km_collab demo_km (Some RSA2048) demo_km_world))) = Some [1] \<and>
   fst (GetKey demo_km_collab
          (fst (snd (GenerateKey demo_km_collab demo_km (Some RSA2048) demo_km_world)))
          (snd (snd (GenerateKey demo_km_collab demo_km (Some RSA2048) demo_km_world)))) =
     (Some [1, 2], Some [1], None)"
proof -
  let ?G = "GenerateKey demo_km_collab demo_km (Some RSA2048) demo_km_world"
  have e: "snd (snd (fst ?G)) = None" by code_simp
  have h: "?G = ((fst (fst ?G), fst (snd (fst ?G)), None), fst (snd ?G), snd (snd ?G))"
    using e by (simp add: prod_eq_iff)
  have k: "priKey (fst (snd ?G)) = Some [1, 2]" "pubKey (fst (snd ?G)) = Some [1]"
    by code_simp+
  from C9_GenerateKey_returns_nil_keys [OF h]
  obtain newPri newPub where
    n: "fst (fst ?G) = None" "fst (snd (fst ?G)) = None"
    and km: "fst (snd ?G) = demo_km\<lparr>priKey := newPri, pubKey := newPub\<rparr>"
    and gk: "newPri \<noteq> None \<and> newPub \<noteq> None \<longrightarrow>
       GetKey demo_km_collab (fst (snd ?G)) (snd (snd ?G)) = ((newPri, newPub, None), fst (snd ?G), snd (snd ?G))"
    by blast
  from km k have "newPri = Some [1, 2]" "newPub = Some [1]" by simp_all
  with gk have "fst (GetKey demo_km_collab (fst (snd ?G)) (snd (snd ?G))) = (Some [1, 2], Some [1], None)"
    by simp
  with e n k show ?thesis by simp
qed



end
